theory Spec2Isabelle
  imports Complex_Main "HOL-Library.Extended_Nat" "HOL-Library.Sublist"
begin

section \<open>The bookmark store of src/context/bookmark.context.tsx\<close>

subsection \<open>Data model\<close>

text \<open>
  A JavaScript string is a sequence of code units; \<^typ>\<open>string\<close> stands for it, one
  \<^typ>\<open>char\<close> per code unit, so \<^term>\<open>length s\<close> is the source's \<^verbatim>\<open>s.length\<close>.
\<close>

datatype bookmark_type = BOOKMARK | FOLDER

text \<open>
  Modelled from the spec: the declaration of the type \<^verbatim>\<open>Bookmark\<close>
  (layouts/search/bookmarks/types/bookmark.types) is not among the sources. The record
  has the fields the provider reads and the data model of the specification lists;
  the extension part of the record scheme stands for every other field of an entry.
  \<^verbatim>\<open>id\<close> and \<^verbatim>\<open>type\<close> carry a prime because the plain names are taken.
  \<^verbatim>\<open>parentId\<close> is \<^verbatim>\<open>string | null\<close> and \<^verbatim>\<open>customImage\<close> is an
  optional string (\<^term>\<open>None\<close> is \<^verbatim>\<open>undefined\<close>).
\<close>

record bookmark =
  id' :: string
  type' :: bookmark_type
  parentId :: "string option"
  pinned :: bool
  isLocal :: bool
  customImage :: "string option"

subsection \<open>Reading the current folder\<close>

definition getCurrentFolderItems ::
  "'a bookmark_scheme list \<Rightarrow> string option \<Rightarrow> 'a bookmark_scheme list" where
  "getCurrentFolderItems bookmarks parent =
     (let pinnedBookmarks = filter (\<lambda>bookmark. pinned bookmark) bookmarks;
          currentFolderBookmarks =
            filter (\<lambda>bookmark. parentId bookmark = parent \<and> \<not> pinned bookmark) bookmarks
      in if parent = None then pinnedBookmarks @ currentFolderBookmarks
         else currentFolderBookmarks)"

subsection \<open>The descendants of a folder\<close>

text \<open>
  \<^verbatim>\<open>getNestedItems(parentId, visited = new Set())\<close>: the loop over the children pushes
  each child's id and, for a child of type FOLDER that is not in \<^verbatim>\<open>visited\<close>, the
  result of the recursive call on a copy of \<^verbatim>\<open>visited\<close>.
\<close>

function (domintros) getNestedItems ::
  "'a bookmark_scheme list \<Rightarrow> string \<Rightarrow> string set \<Rightarrow> string list" where
  "getNestedItems bookmarks parent visited =
     (let visited' = insert parent visited;
          children = filter (\<lambda>b. parentId b = Some parent) bookmarks
      in concat (map (\<lambda>child.
           id' child #
             (if type' child = FOLDER \<and> id' child \<notin> visited'
              then getNestedItems bookmarks (id' child) visited'
              else [])) children))"
  by pat_completeness auto
termination
proof (relation "measure (\<lambda>(bookmarks, parent, visited).
                   card (id' ` set bookmarks - insert parent visited))")
  show "wf (measure (\<lambda>(bookmarks :: 'a bookmark_scheme list, parent, visited).
                   card (id' ` set bookmarks - insert parent visited)))"
    by simp
next
  fix bookmarks :: "'a bookmark_scheme list" and parent visited x xa xb
  assume x: "x = insert parent visited"
    and xa: "xa = filter (\<lambda>b. parentId b = Some parent) bookmarks"
    and xb: "xb \<in> set xa"
    and c: "type' xb = FOLDER \<and> id' xb \<notin> x"
  have fin: "finite (id' ` set bookmarks - insert parent visited)"
    by simp
  have mem: "id' xb \<in> id' ` set bookmarks - insert parent visited"
    using x xa xb c by auto
  have "id' ` set bookmarks - insert (id' xb) (insert parent visited)
          \<subset> id' ` set bookmarks - insert parent visited"
    using mem by blast
  then have "card (id' ` set bookmarks - insert (id' xb) (insert parent visited))
          < card (id' ` set bookmarks - insert parent visited)"
    using fin by (rule psubset_card_mono [rotated])
  then show "((bookmarks, id' xb, x), (bookmarks, parent, visited))
          \<in> measure (\<lambda>(bookmarks, parent, visited).
                   card (id' ` set bookmarks - insert parent visited))"
    using x by simp
qed

text \<open>
  The same recursion with a bound on its depth: \<^term>\<open>None\<close> when a call would nest
  deeper than the bound allows.
\<close>

fun getNestedItems_fuel ::
  "nat \<Rightarrow> 'a bookmark_scheme list \<Rightarrow> string \<Rightarrow> string set \<Rightarrow> string list option" where
  "getNestedItems_fuel 0 bookmarks parent visited = None"
| "getNestedItems_fuel (Suc depth) bookmarks parent visited =
     (let visited' = insert parent visited;
          children = filter (\<lambda>b. parentId b = Some parent) bookmarks
      in map_option concat (those (map (\<lambda>child.
           map_option (Cons (id' child))
             (if type' child = FOLDER \<and> id' child \<notin> visited'
              then getNestedItems_fuel depth bookmarks (id' child) visited'
              else Some [])) children)))"

subsection \<open>The host environment\<close>

text \<open>
  The provider calls into the browser: \<^verbatim>\<open>JSON.stringify\<close>, \<^verbatim>\<open>Blob\<close>,
  \<^verbatim>\<open>window.atob\<close>, \<^verbatim>\<open>Image\<close> and the canvas. None of it is code of the repository,
  so the model takes it as a parameter, a record of functions:
  \<^item> \<open>json_size b\<close> is \<^verbatim>\<open>new Blob([JSON.stringify(b)]).size\<close>, and \<^term>\<open>None\<close> when
    \<^verbatim>\<open>JSON.stringify\<close> throws;
  \<^item> \<open>json_length bs\<close> is \<^verbatim>\<open>JSON.stringify(bs).length\<close>, and \<^term>\<open>None\<close> when it throws;
  \<^item> \<open>atob_length s\<close> is \<^verbatim>\<open>window.atob(s).length\<close>, and \<^term>\<open>None\<close> when \<^verbatim>\<open>atob\<close>
    throws;
  \<^item> \<open>image_load d\<close> is what happens once \<^verbatim>\<open>img.src = d\<close> is set inside the promise
    executor: \<^verbatim>\<open>onload\<close> fires on an image of some width and height, \<^verbatim>\<open>onerror\<close> fires,
    the executor itself throws (which rejects the promise), or no handler is ever called;
  \<^item> \<open>toDataURL d w h f\<close> is \<^verbatim>\<open>canvas.toDataURL(f, 0.7)\<close> after the image \<open>d\<close> was drawn
    on a canvas of \<open>w\<close> by \<open>h\<close> pixels;
  \<^item> \<open>round_scaled a b\<close> is \<^verbatim>\<open>Math.round(a * (128 / b))\<close>, which the engine computes
    in double precision.
\<close>

datatype image_event = OnLoad nat nat | OnError | ExecutorThrows | NoEvent

datatype image_format = PNG | WEBP

record 'a host =
  json_size :: "'a bookmark_scheme \<Rightarrow> nat option"
  json_length :: "'a bookmark_scheme list \<Rightarrow> nat option"
  atob_length :: "string \<Rightarrow> nat option"
  image_load :: "string \<Rightarrow> image_event"
  toDataURL :: "string \<Rightarrow> nat \<Rightarrow> nat \<Rightarrow> image_format \<Rightarrow> string"
  round_scaled :: "nat \<Rightarrow> nat \<Rightarrow> nat"

datatype 'r promise = Resolved 'r | Rejected | Pending

subsection \<open>String helpers of the language\<close>

text \<open>\<^verbatim>\<open>s.split(c)\<close> for a one-character separator: the pieces between the separators.\<close>

fun split :: "char \<Rightarrow> string \<Rightarrow> string list" where
  "split c [] = [[]]"
| "split c (x # xs) =
     (if x = c then [] # split c xs
      else (case split c xs of [] \<Rightarrow> [[x]] | w # ws \<Rightarrow> (x # w) # ws))"

text \<open>\<^verbatim>\<open>xs[i]\<close>: \<^term>\<open>None\<close> is \<^verbatim>\<open>undefined\<close>, the value of a read out of range.\<close>

definition index :: "'x list \<Rightarrow> nat \<Rightarrow> 'x option" where
  "index xs i = (if i < length xs then Some (xs ! i) else None)"

text \<open>\<^verbatim>\<open>Math.ceil(n / d)\<close> on non-negative integers.\<close>

definition Math_ceil_div :: "nat \<Rightarrow> nat \<Rightarrow> nat" where
  "Math_ceil_div n d = (n + (d - 1)) div d"

subsection \<open>Size of one entry\<close>

definition MAX_BOOKMARK_SIZE :: nat where
  "MAX_BOOKMARK_SIZE = 3 * (1024 * 1024) div 2"

text \<open>
  \<^verbatim>\<open>getBookmarkDataSize\<close> returns a number or, from its \<^verbatim>\<open>catch\<close>,
  \<^verbatim>\<open>Number.POSITIVE_INFINITY\<close>: an \<^typ>\<open>enat\<close>. An empty \<^verbatim>\<open>customImage\<close> is falsy,
  as is the empty second piece of the split.
\<close>

definition getBookmarkDataSize :: "'a host \<Rightarrow> 'a bookmark_scheme \<Rightarrow> enat" where
  "getBookmarkDataSize h bookmark =
     (case customImage bookmark of
        Some img \<Rightarrow>
          if img \<noteq> [] then
            (let base64Data =
                   (case index (split CHR '','' img) 1 of
                      Some piece \<Rightarrow> if piece \<noteq> [] then piece else img
                    | None \<Rightarrow> img);
                 imageSize = Math_ceil_div (length base64Data * 3) 4;
                 bookmarkWithoutImage = bookmark\<lparr>customImage := None\<rparr>
             in case json_size h bookmarkWithoutImage of
                  Some jsonSize \<Rightarrow> enat (imageSize + jsonSize)
                | None \<Rightarrow> \<infinity>)
          else (case json_size h bookmark of Some n \<Rightarrow> enat n | None \<Rightarrow> \<infinity>)
      | None \<Rightarrow> (case json_size h bookmark of Some n \<Rightarrow> enat n | None \<Rightarrow> \<infinity>))"

text \<open>
  The words of the specification for the image text. The base64 payload of a data URI
  is the text after its first comma. What the size is taken from is the part of that
  payload before any further comma, or the whole image text when that part is empty
  (in particular when there is no comma).
\<close>

definition base64_payload :: "string \<Rightarrow> string" where
  "base64_payload img = drop 1 (dropWhile (\<lambda>c. c \<noteq> CHR '','') img)"

definition measured_text :: "string \<Rightarrow> string" where
  "measured_text img =
     (let piece = takeWhile (\<lambda>c. c \<noteq> CHR '','') (base64_payload img)
      in if piece \<noteq> [] then piece else img)"

subsection \<open>Image compression\<close>

definition scaled_dimensions :: "'a host \<Rightarrow> nat \<Rightarrow> nat \<Rightarrow> nat \<times> nat" where
  "scaled_dimensions h width height =
     (let maxDimension = 128 in
      if width > height then
        (if width > maxDimension then (maxDimension, round_scaled h height width)
         else (width, height))
      else
        (if height > maxDimension then (round_scaled h width height, maxDimension)
         else (width, height)))"

text \<open>
  \<^verbatim>\<open>compressImageData\<close>. What is thrown inside its \<^verbatim>\<open>try\<close> (by \<^verbatim>\<open>atob\<close>, or for a
  decoded length over 3 MiB) is caught there and the original is returned; the promise
  it builds is resolved by \<^verbatim>\<open>onload\<close> with the re-encoded image and by \<^verbatim>\<open>onerror\<close>
  with the original. \<^verbatim>\<open>split(',')[1]\<close> is \<^verbatim>\<open>undefined\<close> when there is no comma,
  and \<^verbatim>\<open>atob\<close> then receives the text \<^verbatim>\<open>undefined\<close>.
\<close>

definition compressImageData :: "'a host \<Rightarrow> string \<Rightarrow> string promise" where
  "compressImageData h imageData =
     (if \<not> prefix ''data:image'' imageData then Resolved imageData
      else if prefix ''data:image/gif'' imageData \<and> length imageData < MAX_BOOKMARK_SIZE
      then Resolved imageData
      else
        (let base64 = (case index (split CHR '','' imageData) 1 of
                         Some piece \<Rightarrow> piece | None \<Rightarrow> ''undefined'')
         in case atob_length h base64 of
              None \<Rightarrow> Resolved imageData
            | Some len \<Rightarrow>
                if len > 3 * 1024 * 1024 then Resolved imageData
                else
                  (case image_load h imageData of
                     OnLoad width height \<Rightarrow>
                       (let (w, h') = scaled_dimensions h width height;
                            format = (if prefix ''data:image/gif'' imageData then PNG else WEBP)
                        in Resolved (toDataURL h imageData w h' format))
                   | OnError \<Rightarrow> Resolved imageData
                   | ExecutorThrows \<Rightarrow> Rejected
                   | NoEvent \<Rightarrow> Pending)))"

subsection \<open>The store\<close>

text \<open>Each constructor is one of the messages the source passes to \<^verbatim>\<open>toast.error\<close>.\<close>

datatype toast =
    ImageProcessingError
  | ImageTooLarge
  | TotalTooLarge
  | StorageError
  | AddFailed

datatype 'a storage_write =
    WriteBookmarks "'a bookmark_scheme list"
  | WriteDeletedBookmarkIds "string list"

text \<open>
  Modelled from the spec: \<^verbatim>\<open>getFromStorage\<close> and \<^verbatim>\<open>setToStorage\<close> of
  \<^verbatim>\<open>@/common/storage\<close> are not among the sources; they are the persistent store
  contract of the specification, \<^verbatim>\<open>get(key)\<close> and \<^verbatim>\<open>set(key, value)\<close>, on the
  keys \<^verbatim>\<open>bookmarks\<close> and \<^verbatim>\<open>deletedBookmarkIds\<close>. The state is the React state
  \<open>bookmarks\<close>, the two stored values (\<^term>\<open>None\<close> for a key never set), the toasts
  shown, and the log of every \<^verbatim>\<open>setToStorage\<close> call, oldest first.
\<close>

record 'a store =
  bookmarks :: "'a bookmark_scheme list"
  stored_bookmarks :: "'a bookmark_scheme list option"
  stored_deletedBookmarkIds :: "string list option"
  toasts :: "toast list"
  writes :: "'a storage_write list"

definition setToStorage_bookmarks ::
  "'a bookmark_scheme list \<Rightarrow> 'a store \<Rightarrow> 'a store" where
  "setToStorage_bookmarks v s =
     s\<lparr>stored_bookmarks := Some v, writes := writes s @ [WriteBookmarks v]\<rparr>"

definition setToStorage_deletedBookmarkIds :: "string list \<Rightarrow> 'a store \<Rightarrow> 'a store" where
  "setToStorage_deletedBookmarkIds v s =
     s\<lparr>stored_deletedBookmarkIds := Some v,
       writes := writes s @ [WriteDeletedBookmarkIds v]\<rparr>"

definition toast_error :: "toast \<Rightarrow> 'a store \<Rightarrow> 'a store" where
  "toast_error t s = s\<lparr>toasts := toasts s @ [t]\<rparr>"

text \<open>The first effect: load the stored entries at start.\<close>

definition loadBookmarks :: "'a store \<Rightarrow> 'a store" where
  "loadBookmarks s =
     (case stored_bookmarks s of
        Some storedBookmarks \<Rightarrow> s\<lparr>bookmarks := storedBookmarks\<rparr>
      | None \<Rightarrow> s)"

text \<open>The second effect, run after every change of \<open>bookmarks\<close>.\<close>

definition saveBookmarks :: "'a store \<Rightarrow> 'a store" where
  "saveBookmarks s =
     (let hasLocalBookmarks = list_ex isLocal (bookmarks s)
      in if hasLocalBookmarks
         then setToStorage_bookmarks (filter isLocal (bookmarks s)) s
         else s)"

subsection \<open>Adding an entry\<close>

text \<open>
  \<^verbatim>\<open>prepareBookmarkForStorage\<close> resolves with the processed entry; the toasts it
  showed come with it. It waits for the compression, so it stays pending when that does.
\<close>

definition prepareBookmarkForStorage ::
  "'a host \<Rightarrow> 'a bookmark_scheme \<Rightarrow> ('a bookmark_scheme \<times> toast list) promise" where
  "prepareBookmarkForStorage h bookmark =
     (let processedBookmark = bookmark\<lparr>isLocal := True\<rparr>
      in case customImage processedBookmark of
           None \<Rightarrow> Resolved (processedBookmark, [])
         | Some img \<Rightarrow>
             if img \<noteq> [] \<and> length img > 50000 then
               (case compressImageData h img of
                  Resolved compressed \<Rightarrow>
                    Resolved (processedBookmark\<lparr>customImage := Some compressed\<rparr>, [])
                | Rejected \<Rightarrow>
                    Resolved
                      (if type' processedBookmark = BOOKMARK
                       then processedBookmark\<lparr>customImage := None\<rparr>
                       else processedBookmark,
                       [ImageProcessingError])
                | Pending \<Rightarrow> Pending)
             else Resolved (processedBookmark, []))"

definition sizeLimit :: "bool \<Rightarrow> nat" where
  "sizeLimit gif = (if gif then 3 * MAX_BOOKMARK_SIZE div 2 else MAX_BOOKMARK_SIZE)"

definition isGif :: "'a bookmark_scheme \<Rightarrow> bool" where
  "isGif bookmark =
     (case customImage bookmark of
        Some img \<Rightarrow> prefix ''data:image/gif'' img
      | None \<Rightarrow> False)"

text \<open>
  \<^verbatim>\<open>addBookmark\<close>. A call whose \<^verbatim>\<open>await\<close> never resumes leaves the state as it
  was. A rejection would reach the outer \<^verbatim>\<open>catch\<close>.
\<close>

definition addBookmark :: "'a host \<Rightarrow> 'a store \<Rightarrow> 'a bookmark_scheme \<Rightarrow> 'a store" where
  "addBookmark h s bookmark =
     (let bookmarkSize = getBookmarkDataSize h bookmark
      in if bookmarkSize > enat (sizeLimit (isGif bookmark))
         then toast_error ImageTooLarge s
         else
           (case prepareBookmarkForStorage h bookmark of
              Pending \<Rightarrow> s
            | Rejected \<Rightarrow> toast_error AddFailed s
            | Resolved (newBookmark, shown) \<Rightarrow>
                (let s1 = s\<lparr>toasts := toasts s @ shown\<rparr>;
                     updatedBookmarks = bookmarks s @ [newBookmark]
                 in case json_length h (filter isLocal updatedBookmarks) of
                      None \<Rightarrow> toast_error StorageError s1
                    | Some testData_length \<Rightarrow>
                        if testData_length > 5 * 1024 * 1024
                        then toast_error TotalTooLarge s1
                        else
                          (let s2 = s1\<lparr>bookmarks := updatedBookmarks\<rparr>;
                               localBookmarks = filter isLocal updatedBookmarks
                           in setToStorage_bookmarks localBookmarks s2))))"

subsection \<open>Deleting an entry\<close>

definition deleteBookmark :: "'a store \<Rightarrow> string \<Rightarrow> 'a store" where
  "deleteBookmark s i =
     (case find (\<lambda>b. id' b = i) (bookmarks s) of
        None \<Rightarrow> s
      | Some bookmarkToDelete \<Rightarrow>
          (let itemsToDelete =
                 (if type' bookmarkToDelete = FOLDER
                  then [i] @ getNestedItems (bookmarks s) i {}
                  else [i]);
               updatedBookmarks = filter (\<lambda>b. id' b \<notin> set itemsToDelete) (bookmarks s);
               s1 = s\<lparr>bookmarks := updatedBookmarks\<rparr>;
               localBookmarks = filter isLocal updatedBookmarks;
               s2 = setToStorage_bookmarks localBookmarks s1;
               deletedList = (case stored_deletedBookmarkIds s2 of
                                Some l \<Rightarrow> l | None \<Rightarrow> [])
           in setToStorage_deletedBookmarkIds (deletedList @ itemsToDelete) s2))"

subsection \<open>Descendants, as relations\<close>

text \<open>
  An entry is a child of the entry (or id) its \<open>parentId\<close> names.
  \<open>descendant bs root x\<close>: a chain of \<open>parentId\<close> edges leads from \<open>x\<close> up to the id
  \<open>root\<close>, through entries of any type.
\<close>

inductive descendant :: "'a bookmark_scheme list \<Rightarrow> string \<Rightarrow> 'a bookmark_scheme \<Rightarrow> bool"
  for bs :: "'a bookmark_scheme list" and root :: string where
  child: "x \<in> set bs \<Longrightarrow> parentId x = Some root \<Longrightarrow> descendant bs root x"
| deeper: "descendant bs root y \<Longrightarrow> x \<in> set bs \<Longrightarrow> parentId x = Some (id' y)
     \<Longrightarrow> descendant bs root x"

text \<open>\<open>nested bs root x\<close>: the same, where every entry strictly between is a FOLDER.\<close>

inductive nested :: "'a bookmark_scheme list \<Rightarrow> string \<Rightarrow> 'a bookmark_scheme \<Rightarrow> bool"
  for bs :: "'a bookmark_scheme list" and root :: string where
  child: "x \<in> set bs \<Longrightarrow> parentId x = Some root \<Longrightarrow> nested bs root x"
| deeper: "nested bs root y \<Longrightarrow> type' y = FOLDER \<Longrightarrow> x \<in> set bs
     \<Longrightarrow> parentId x = Some (id' y) \<Longrightarrow> nested bs root x"

text \<open>
  The calls of \<open>getNestedItems\<close>: \<open>calls bs (p, v) (q, w)\<close> when evaluating
  \<open>getNestedItems bs p v\<close> evaluates \<open>getNestedItems bs q w\<close>.
\<close>

inductive calls ::
  "'a bookmark_scheme list \<Rightarrow> string \<times> string set \<Rightarrow> string \<times> string set \<Rightarrow> bool"
  for bs :: "'a bookmark_scheme list" and start :: "string \<times> string set" where
  self: "calls bs start start"
| inner: "calls bs start (q, w) \<Longrightarrow> c \<in> set bs \<Longrightarrow> parentId c = Some q
     \<Longrightarrow> type' c = FOLDER \<Longrightarrow> id' c \<notin> insert q w
     \<Longrightarrow> calls bs start (id' c, insert q w)"

subsection \<open>The states the provider can reach\<close>

text \<open>
  From a state with an empty log: the two effects, the two operations, and
  \<^verbatim>\<open>setBookmarks\<close>, which the context hands out as it is.
\<close>

inductive reachable :: "'a host \<Rightarrow> 'a store \<Rightarrow> bool" for h :: "'a host" where
  start: "writes s = [] \<Longrightarrow> reachable h s"
| load: "reachable h s \<Longrightarrow> reachable h (loadBookmarks s)"
| save: "reachable h s \<Longrightarrow> reachable h (saveBookmarks s)"
| set_bookmarks: "reachable h s \<Longrightarrow> reachable h (s\<lparr>bookmarks := bs\<rparr>)"
| add: "reachable h s \<Longrightarrow> reachable h (addBookmark h s b)"
| delete: "reachable h s \<Longrightarrow> reachable h (deleteBookmark s i)"

definition local_only :: "'a storage_write \<Rightarrow> bool" where
  "local_only w =
     (case w of
        WriteBookmarks bs \<Rightarrow> list_all isLocal bs
      | WriteDeletedBookmarkIds ids \<Rightarrow> True)"

subsection \<open>A host for the examples\<close>

text \<open>
  The examples run on entries that have the fields of \<^typ>\<open>bookmark\<close> and no other,
  with a host that serialises them as \<^verbatim>\<open>JSON.stringify\<close> does: members in the order
  of the record, an \<^verbatim>\<open>undefined\<close> member left out, strings quoted and escaped.
\<close>

definition hex_digit :: "nat \<Rightarrow> char" where
  "hex_digit n = ''0123456789abcdef'' ! (n mod 16)"

definition json_escape :: "char \<Rightarrow> string" where
  "json_escape c =
     (if c = CHR 0x22 then [CHR 0x5C, CHR 0x22]
      else if c = CHR 0x5C then [CHR 0x5C, CHR 0x5C]
      else if c = CHR 0x08 then [CHR 0x5C, CHR ''b'']
      else if c = CHR 0x09 then [CHR 0x5C, CHR ''t'']
      else if c = CHR 0x0A then [CHR 0x5C, CHR ''n'']
      else if c = CHR 0x0C then [CHR 0x5C, CHR ''f'']
      else if c = CHR 0x0D then [CHR 0x5C, CHR ''r'']
      else if (of_char c :: nat) < 0x20
      then [CHR 0x5C, CHR ''u'', CHR ''0'', CHR ''0'',
            hex_digit (of_char c div 16), hex_digit (of_char c)]
      else [c])"

definition json_string :: "string \<Rightarrow> string" where
  "json_string s = [CHR 0x22] @ concat (map json_escape s) @ [CHR 0x22]"

definition json_bool :: "bool \<Rightarrow> string" where
  "json_bool b = (if b then ''true'' else ''false'')"

definition json_entry :: "bookmark \<Rightarrow> string" where
  \<open>json_entry b =
     ''{"id":'' @ json_string (id' b)
     @ '',"type":'' @ (case type' b of BOOKMARK \<Rightarrow> ''"BOOKMARK"'' | FOLDER \<Rightarrow> ''"FOLDER"'')
     @ '',"parentId":'' @ (case parentId b of None \<Rightarrow> ''null'' | Some p \<Rightarrow> json_string p)
     @ '',"pinned":'' @ json_bool (pinned b)
     @ '',"isLocal":'' @ json_bool (isLocal b)
     @ (case customImage b of None \<Rightarrow> [] | Some i \<Rightarrow> '',"customImage":'' @ json_string i)
     @ ''}''\<close>

fun join_commas :: "string list \<Rightarrow> string" where
  "join_commas [] = []"
| "join_commas [x] = x"
| "join_commas (x # y # zs) = x @ '','' @ join_commas (y # zs)"

definition json_entries :: "bookmark list \<Rightarrow> string" where
  "json_entries bs = ''['' @ join_commas (map json_entry bs) @ '']''"

text \<open>The bytes of the UTF-8 encoding: one for a code unit below 128, two for the others.\<close>

definition utf8_size :: "string \<Rightarrow> nat" where
  "utf8_size s = sum_list (map (\<lambda>c. if (of_char c :: nat) < 0x80 then 1 else 2) s)"

text \<open>
  \<^verbatim>\<open>atob\<close> (forgiving base64): white space is dropped, one or two \<^verbatim>\<open>=\<close> are taken
  off the end of a text whose length is a multiple of four, a length of one modulo four
  or a character outside the alphabet is an error, and every four characters give
  three bytes.
\<close>

definition base64_char :: "char \<Rightarrow> bool" where
  "base64_char c =
     (let n = (of_char c :: nat)
      in (0x41 \<le> n \<and> n \<le> 0x5A) \<or> (0x61 \<le> n \<and> n \<le> 0x7A) \<or> (0x30 \<le> n \<and> n \<le> 0x39)
         \<or> c = CHR ''+'' \<or> c = CHR ''/'')"

definition strip_padding :: "string \<Rightarrow> string" where
  "strip_padding s =
     (if length s mod 4 = 0 \<and> s \<noteq> [] \<and> last s = CHR ''=''
      then (if butlast s \<noteq> [] \<and> last (butlast s) = CHR ''=''
            then butlast (butlast s) else butlast s)
      else s)"

definition atob_size :: "string \<Rightarrow> nat option" where
  "atob_size s =
     (let t = strip_padding
                (filter (\<lambda>c. c \<notin> {CHR 0x09, CHR 0x0A, CHR 0x0C, CHR 0x0D, CHR 0x20}) s)
      in if length t mod 4 = 1 \<or> \<not> list_all base64_char t then None
         else Some (length t * 6 div 8))"

text \<open>
  The image codec is not modelled: the example host takes the event it reports. Its
  rounding is the exact one, halves up; that is the engine's value whenever \<open>b\<close> is a
  power of two, since \<^verbatim>\<open>128 / b\<close> and the product are then exact in double precision,
  and the examples load no other image.
\<close>

definition example_host :: "image_event \<Rightarrow> unit host" where
  "example_host ev =
     \<lparr>json_size = (\<lambda>b. Some (utf8_size (json_entry b))),
      json_length = (\<lambda>bs. Some (length (json_entries bs))),
      atob_length = atob_size,
      image_load = (\<lambda>d. ev),
      toDataURL = (\<lambda>d w h' f.
        case f of PNG \<Rightarrow> ''data:image/png;base64,AAAA''
                | WEBP \<Rightarrow> ''data:image/webp;base64,AAAA''),
      round_scaled = (\<lambda>a b. (2 * a * 128 + b) div (2 * b))\<rparr>"

definition entry :: "string \<Rightarrow> bookmark_type \<Rightarrow> string option \<Rightarrow> bool \<Rightarrow> bookmark" where
  "entry i t p pin =
     \<lparr>id' = i, type' = t, parentId = p, pinned = pin, isLocal = True, customImage = None\<rparr>"

definition fresh_store :: "bookmark list \<Rightarrow> unit store" where
  "fresh_store bs =
     \<lparr>bookmarks = bs, stored_bookmarks = None, stored_deletedBookmarkIds = None,
      toasts = [], writes = []\<rparr>"

text \<open>
  Entries with an embedded image: a data URI of the given MIME type whose base64 payload
  is \<open>n\<close> times the letter A.
\<close>

definition data_uri :: "string \<Rightarrow> nat \<Rightarrow> string" where
  "data_uri mime n = ''data:'' @ mime @ '';base64,'' @ replicate n CHR ''A''"

definition with_image :: "bookmark \<Rightarrow> string \<Rightarrow> bookmark" where
  "with_image b img = b\<lparr>customImage := Some img\<rparr>"

definition gif_entry :: "string \<Rightarrow> nat \<Rightarrow> bookmark" where
  "gif_entry i n = with_image (entry i BOOKMARK None False) (data_uri ''image/gif'' n)"

definition png_entry :: "string \<Rightarrow> nat \<Rightarrow> bookmark" where
  "png_entry i n = with_image (entry i BOOKMARK None False) (data_uri ''image/png'' n)"

section \<open>Properties\<close>

subsection \<open>Arithmetic and string helpers\<close>

lemma Math_ceil_div_ceiling: "Math_ceil_div (n * 3) 4 = nat \<lceil>3 * real n / 4\<rceil>"
proof -
  have "\<lceil>3 * real n / 4\<rceil> = int ((n * 3 + 3) div 4)"
  proof (rule ceiling_unique)
    show "real_of_int (int ((n * 3 + 3) div 4)) - 1 < 3 * real n / 4"
    proof -
      have "(n * 3 + 3) div 4 * 4 \<le> n * 3 + 3" by simp
      then have "real ((n * 3 + 3) div 4 * 4) \<le> real (n * 3 + 3)" by (rule of_nat_mono)
      then show ?thesis by simp
    qed
    show "3 * real n / 4 \<le> real_of_int (int ((n * 3 + 3) div 4))"
    proof -
      have "n * 3 + 3 < ((n * 3 + 3) div 4 + 1) * 4"
        using div_less_iff_less_mult [of 4 "(n * 3 + 3) div 4 + 1" "n * 3 + 3"] by simp
      then have "n * 3 \<le> (n * 3 + 3) div 4 * 4" by simp
      then have "real (n * 3) \<le> real ((n * 3 + 3) div 4 * 4)" by (rule of_nat_mono)
      then show ?thesis by simp
    qed
  qed
  then show ?thesis by (simp add: Math_ceil_div_def)
qed

subsection \<open>Listing a folder\<close>

text \<open>
  C4. At the root, \<open>getCurrentFolderItems\<close> returns the pinned entries, whatever their
  parent, followed by the entries that are not pinned and have no parent, each group in
  the order of the sequence, and so nothing that is neither pinned nor at the root. For
  a parent \<open>p\<close> it returns the entries that are not pinned and whose parent is \<open>p\<close>, in
  the order of the sequence. It is a function of the sequence alone and returns a list:
  no state is written.
\<close>

theorem getCurrentFolderItems_listing:
  "getCurrentFolderItems bs None
     = filter pinned bs @ filter (\<lambda>b. \<not> pinned b \<and> parentId b = None) bs
   \<and> getCurrentFolderItems bs (Some p)
     = filter (\<lambda>b. \<not> pinned b \<and> parentId b = Some p) bs
   \<and> (\<forall>b \<in> set (getCurrentFolderItems bs None). pinned b \<or> parentId b = None)"
  by (auto simp: getCurrentFolderItems_def conj_commute)

theorem getCurrentFolderItems_listing_witness:
  "getCurrentFolderItems
     [entry ''a'' BOOKMARK (Some ''f'') False, entry ''b'' BOOKMARK None False,
      entry ''c'' BOOKMARK (Some ''f'') True, entry ''f'' FOLDER None False] None
   = [entry ''c'' BOOKMARK (Some ''f'') True, entry ''b'' BOOKMARK None False,
      entry ''f'' FOLDER None False]
   \<and> getCurrentFolderItems
     [entry ''a'' BOOKMARK (Some ''f'') False, entry ''b'' BOOKMARK None False,
      entry ''c'' BOOKMARK (Some ''f'') True, entry ''f'' FOLDER None False] (Some ''f'')
   = [entry ''a'' BOOKMARK (Some ''f'') False]"
  using getCurrentFolderItems_listing
    [of "[entry ''a'' BOOKMARK (Some ''f'') False, entry ''b'' BOOKMARK None False,
      entry ''c'' BOOKMARK (Some ''f'') True, entry ''f'' FOLDER None False]" "''f''"]
  by (simp add: entry_def)

subsection \<open>Termination of the descendant computation\<close>

lemma those_map_Some:
  "(\<And>x. x \<in> set xs \<Longrightarrow> f x = Some (g x)) \<Longrightarrow> those (map f xs) = Some (map g xs)"
  by (induction xs) auto

lemma card_visited_decreases:
  assumes "c \<in> set bs" "id' c \<notin> insert p v"
  shows "card (id' ` set bs - insert (id' c) (insert p v)) < card (id' ` set bs - insert p v)"
proof -
  have "id' c \<in> id' ` set bs - insert p v" using assms by auto
  then have "id' ` set bs - insert (id' c) (insert p v) \<subset> id' ` set bs - insert p v"
    by blast
  then show ?thesis by (simp add: psubset_card_mono)
qed

lemma getNestedItems_fuel_enough:
  "card (id' ` set bs - insert p v) < n \<Longrightarrow>
     getNestedItems_fuel n bs p v = Some (getNestedItems bs p v)"
proof (induction bs p v arbitrary: n rule: getNestedItems.induct)
  case (1 bs p v)
  then obtain m where n: "n = Suc m" by (cases n) auto
  let ?v = "insert p v"
  let ?cs = "filter (\<lambda>b. parentId b = Some p) bs"
  let ?f = "\<lambda>child. map_option (Cons (id' child))
             (if type' child = FOLDER \<and> id' child \<notin> ?v
              then getNestedItems_fuel m bs (id' child) ?v else Some [])"
  let ?g = "\<lambda>child. id' child #
             (if type' child = FOLDER \<and> id' child \<notin> ?v
              then getNestedItems bs (id' child) ?v else [])"
  have "?f c = Some (?g c)" if c: "c \<in> set ?cs" for c
  proof (cases "type' c = FOLDER \<and> id' c \<notin> ?v")
    case True
    have "c \<in> set bs" using c by simp
    then have "card (id' ` set bs - insert (id' c) ?v) < card (id' ` set bs - ?v)"
      using True by (intro card_visited_decreases) auto
    then have "card (id' ` set bs - insert (id' c) ?v) < m"
      using "1.prems" n by simp
    then have "getNestedItems_fuel m bs (id' c) ?v = Some (getNestedItems bs (id' c) ?v)"
      using "1.IH" [OF refl refl c True] by simp
    then show ?thesis using True by simp
  next
    case False
    then show ?thesis by auto
  qed
  then have "those (map ?f ?cs) = Some (map ?g ?cs)"
    by (rule those_map_Some)
  then show ?case
    unfolding n by (simp add: Let_def)
qed

text \<open>
  C3. The recursion of \<open>getNestedItems\<close> is well-founded on every sequence, every
  parent id and every visited set, cyclic \<open>parentId\<close> edges included: each call adds
  an id of the sequence to the visited set of its branch, so the calls never nest
  deeper than the number of ids of the sequence that are not yet visited, plus one.
  \<open>deleteBookmark\<close> makes one such call and is not recursive itself.
\<close>

theorem getNestedItems_terminates:
  "getNestedItems_dom (bs, p, visited)
   \<and> getNestedItems_fuel (Suc (card (id' ` set bs - insert p visited))) bs p visited
       = Some (getNestedItems bs p visited)"
proof
  show "getNestedItems_dom (bs, p, visited)"
    by (induction bs p visited rule: getNestedItems.induct)
       (auto intro: getNestedItems.domintros)
  show "getNestedItems_fuel (Suc (card (id' ` set bs - insert p visited))) bs p visited
       = Some (getNestedItems bs p visited)"
    by (rule getNestedItems_fuel_enough) simp
qed

subsection \<open>Deleting an entry that is not a folder\<close>

text \<open>
  C10, as the code has it. When the entry found for the id is of type BOOKMARK,
  \<open>deleteBookmark\<close> removes every entry with that id and keeps every entry with another
  id, unchanged and in order. Entries whose \<open>parentId\<close> is the deleted id stay in the
  sequence, and the ledger receives that one id: there is no cascade.
\<close>

theorem deleteBookmark_non_folder:
  assumes "find (\<lambda>x. id' x = i) (bookmarks s) = Some b" and "type' b = BOOKMARK"
  shows "bookmarks (deleteBookmark s i) = filter (\<lambda>x. id' x \<noteq> i) (bookmarks s)
     \<and> (\<forall>x \<in> set (bookmarks s). id' x \<noteq> i \<and> parentId x = Some i \<longrightarrow>
           x \<in> set (bookmarks (deleteBookmark s i)))
     \<and> stored_deletedBookmarkIds (deleteBookmark s i)
           = Some ((case stored_deletedBookmarkIds s of Some l \<Rightarrow> l | None \<Rightarrow> []) @ [i])"
proof -
  have eq: "bookmarks (deleteBookmark s i) = filter (\<lambda>x. id' x \<noteq> i) (bookmarks s)"
    using assms
    by (simp add: deleteBookmark_def setToStorage_bookmarks_def
        setToStorage_deletedBookmarkIds_def Let_def)
  have led: "stored_deletedBookmarkIds (deleteBookmark s i)
           = Some ((case stored_deletedBookmarkIds s of Some l \<Rightarrow> l | None \<Rightarrow> []) @ [i])"
    using assms
    by (simp add: deleteBookmark_def setToStorage_bookmarks_def
        setToStorage_deletedBookmarkIds_def Let_def)
  have orphans: "\<forall>x \<in> set (bookmarks s). id' x \<noteq> i \<and> parentId x = Some i \<longrightarrow>
           x \<in> set (bookmarks (deleteBookmark s i))"
    unfolding eq by simp
  from eq orphans led show ?thesis by (intro conjI)
qed

theorem deleteBookmark_non_folder_witness:
  "find (\<lambda>x. id' x = ''x'')
     (bookmarks (fresh_store
        [entry ''a'' BOOKMARK None False, entry ''x'' BOOKMARK None False,
         entry ''y'' BOOKMARK (Some ''x'') False]))
     = Some (entry ''x'' BOOKMARK None False)
   \<and> type' (entry ''x'' BOOKMARK None False) = BOOKMARK
   \<and> bookmarks (deleteBookmark (fresh_store
        [entry ''a'' BOOKMARK None False, entry ''x'' BOOKMARK None False,
         entry ''y'' BOOKMARK (Some ''x'') False]) ''x'')
     = [entry ''a'' BOOKMARK None False, entry ''y'' BOOKMARK (Some ''x'') False]
   \<and> stored_deletedBookmarkIds (deleteBookmark (fresh_store
        [entry ''a'' BOOKMARK None False, entry ''x'' BOOKMARK None False,
         entry ''y'' BOOKMARK (Some ''x'') False]) ''x'') = Some [''x'']"
proof -
  let ?bs = "[entry ''a'' BOOKMARK None False, entry ''x'' BOOKMARK None False,
         entry ''y'' BOOKMARK (Some ''x'') False]"
  let ?s = "fresh_store ?bs"
  have bs: "bookmarks ?s = ?bs" and st: "stored_deletedBookmarkIds ?s = None"
    by (simp_all add: fresh_store_def)
  have f: "find (\<lambda>x. id' x = ''x'') (bookmarks ?s) = Some (entry ''x'' BOOKMARK None False)"
    unfolding bs by (simp add: entry_def)
  have t: "type' (entry ''x'' BOOKMARK None False) = BOOKMARK"
    by (simp add: entry_def)
  note del = deleteBookmark_non_folder [OF f t]
  from del have "bookmarks (deleteBookmark ?s ''x'')
          = filter (\<lambda>x. id' x \<noteq> ''x'') (bookmarks ?s)"
    by blast
  then have b: "bookmarks (deleteBookmark ?s ''x'')
          = [entry ''a'' BOOKMARK None False, entry ''y'' BOOKMARK (Some ''x'') False]"
    unfolding bs by (simp add: entry_def)
  from del have "stored_deletedBookmarkIds (deleteBookmark ?s ''x'')
           = Some ((case stored_deletedBookmarkIds ?s of Some l \<Rightarrow> l | None \<Rightarrow> []) @ [''x''])"
    by blast
  then have d: "stored_deletedBookmarkIds (deleteBookmark ?s ''x'') = Some [''x'']"
    unfolding st by simp
  from f t b d show ?thesis by (intro conjI)
qed

text \<open>
  C10, as stated, fails: two entries share the id \<open>x\<close>, the first of them is of type
  BOOKMARK, and deleting \<open>x\<close> removes both, not exactly one.
\<close>

theorem deleteBookmark_duplicate_id_counterexample:
  "find (\<lambda>x. id' x = ''x'')
     (bookmarks (fresh_store
        [entry ''x'' BOOKMARK None False, entry ''a'' BOOKMARK None False,
         entry ''x'' BOOKMARK (Some ''a'') True]))
     = Some (entry ''x'' BOOKMARK None False)
   \<and> type' (entry ''x'' BOOKMARK None False) = BOOKMARK
   \<and> length (bookmarks (fresh_store
        [entry ''x'' BOOKMARK None False, entry ''a'' BOOKMARK None False,
         entry ''x'' BOOKMARK (Some ''a'') True])) = 3
   \<and> bookmarks (deleteBookmark (fresh_store
        [entry ''x'' BOOKMARK None False, entry ''a'' BOOKMARK None False,
         entry ''x'' BOOKMARK (Some ''a'') True]) ''x'')
     = [entry ''a'' BOOKMARK None False]
   \<and> entry ''x'' BOOKMARK (Some ''a'') True \<noteq> entry ''x'' BOOKMARK None False"
  by (simp add: deleteBookmark_def fresh_store_def entry_def setToStorage_bookmarks_def
      setToStorage_deletedBookmarkIds_def Let_def)

subsection \<open>Deleting a folder\<close>

declare getNestedItems.simps [simp del]













subsection \<open>Evaluating the examples\<close>

lemmas store_ops =
  toast_error_def setToStorage_bookmarks_def setToStorage_deletedBookmarkIds_def

lemma split_no_separator: "c \<notin> set s \<Longrightarrow> split c s = [s]"
  by (induction s) auto

lemma length_json_string:
  "length (json_string s) = 2 + sum_list (map (\<lambda>c. length (json_escape c)) s)"
  by (simp add: json_string_def length_concat comp_def)

lemma utf8_size_simps:
  "utf8_size [] = 0"
  "utf8_size (c # s) = (if (of_char c :: nat) < 0x80 then 1 else 2) + utf8_size s"
  "utf8_size (s @ t) = utf8_size s + utf8_size t"
  "utf8_size (replicate n c) = n * (if (of_char c :: nat) < 0x80 then 1 else 2)"
  by (simp_all add: utf8_size_def sum_list_replicate)

lemma utf8_size_concat: "utf8_size (concat xs) = sum_list (map utf8_size xs)"
  by (induction xs) (simp_all add: utf8_size_simps)

lemma utf8_size_json_string:
  "utf8_size (json_string s) = 2 + sum_list (map (\<lambda>c. utf8_size (json_escape c)) s)"
  by (simp add: json_string_def utf8_size_simps utf8_size_concat comp_def)

lemma atob_size_replicate:
  assumes "0 < n" "n mod 4 \<noteq> 1"
  shows "atob_size (replicate n CHR ''A'') = Some (n * 6 div 8)"
proof -
  have "filter (\<lambda>c. c \<notin> {CHR 0x09, CHR 0x0A, CHR 0x0C, CHR 0x0D, CHR 0x20})
          (replicate n CHR ''A'') = replicate n CHR ''A''"
    by (simp add: filter_id_conv)
  moreover have "strip_padding (replicate n CHR ''A'') = replicate n CHR ''A''"
    using assms(1) by (simp add: strip_padding_def)
  moreover have "list_all base64_char (replicate n CHR ''A'')"
    by (simp add: list_all_iff base64_char_def)
  ultimately show ?thesis using assms(2) by (simp add: atob_size_def)
qed

lemmas example_defs =
  example_host_def entry_def with_image_def data_uri_def gif_entry_def png_entry_def
  json_entry_def json_entries_def json_bool_def json_escape_def
  length_json_string utf8_size_json_string utf8_size_simps sum_list_replicate
  index_def split_no_separator Math_ceil_div_def

lemma gif_entry_size:
  "getBookmarkDataSize (example_host ev) (gif_entry ''g4'' 1400000) = enat 1050075"
  by (simp add: getBookmarkDataSize_def example_defs)

lemma gif_entry_isGif: "isGif (gif_entry i n)"
  by (simp add: isGif_def example_defs)

lemma png_entry_not_isGif: "\<not> isGif (png_entry i n)"
  by (simp add: isGif_def example_defs)

lemma gif_entry_prepare:
  "prepareBookmarkForStorage (example_host ev) (gif_entry ''g4'' 1400000)
     = Resolved (gif_entry ''g4'' 1400000, [])"
  by (simp add: prepareBookmarkForStorage_def compressImageData_def MAX_BOOKMARK_SIZE_def
      example_defs)

lemma gif_entries_length:
  "json_length (example_host ev)
     (filter isLocal
        (bookmarks (fresh_store
           [gif_entry ''g1'' 1400000, gif_entry ''g2'' 1400000, gif_entry ''g3'' 1400000])
         @ [gif_entry ''g4'' 1400000])) = Some 5600461"
  by (simp add: fresh_store_def example_defs)

lemma png_entry_size:
  "getBookmarkDataSize (example_host ev) (png_entry ''p'' 2400000) = enat 1800074"
  by (simp add: getBookmarkDataSize_def example_defs)

lemma gif_entry_big_size:
  "getBookmarkDataSize (example_host ev) (gif_entry ''p'' 2400000) = enat 1800074"
  by (simp add: getBookmarkDataSize_def example_defs)

lemma gif_entry_big_prepare:
  "prepareBookmarkForStorage (example_host (OnLoad 256 256)) (gif_entry ''p'' 2400000)
     = Resolved (with_image (entry ''p'' BOOKMARK None False) ''data:image/png;base64,AAAA'', [])"
proof -
  have "index (split CHR '','' (data_uri ''image/gif'' 2400000)) 1
          = Some (replicate 2400000 CHR ''A'')"
    by (simp add: data_uri_def index_def split_no_separator)
  moreover have "atob_size (replicate 2400000 CHR ''A'') = Some 1800000"
    by (simp add: atob_size_replicate)
  moreover have "prefix ''data:image/gif'' (data_uri ''image/gif'' 2400000)"
    and "prefix ''data:image'' (data_uri ''image/gif'' 2400000)"
    and "length (data_uri ''image/gif'' 2400000) = 2400022"
    by (simp_all add: data_uri_def)
  ultimately have "compressImageData (example_host (OnLoad 256 256))
      (data_uri ''image/gif'' 2400000) = Resolved ''data:image/png;base64,AAAA''"
    by (simp add: compressImageData_def MAX_BOOKMARK_SIZE_def example_host_def
        scaled_dimensions_def)
  moreover have "data_uri ''image/gif'' 2400000 \<noteq> []"
    and "length (data_uri ''image/gif'' 2400000) = 2400022"
    by (simp_all add: data_uri_def)
  ultimately show ?thesis
    by (simp add: prepareBookmarkForStorage_def gif_entry_def with_image_def entry_def)
qed

lemma gif_entry_c_size:
  "getBookmarkDataSize (example_host ev) (gif_entry ''c5'' 1200000) = enat 900075"
  by (simp add: getBookmarkDataSize_def example_defs)


subsection \<open>The size of one entry\<close>

lemma split_pieces:
  "split c s = takeWhile (\<lambda>x. x \<noteq> c) s
     # (case dropWhile (\<lambda>x. x \<noteq> c) s of [] \<Rightarrow> [] | x # r \<Rightarrow> split c r)"
  by (induction s) auto

lemma index_split_second:
  "index (split c s) (Suc 0) =
     (case dropWhile (\<lambda>x. x \<noteq> c) s of
        [] \<Rightarrow> None
      | x # r \<Rightarrow> Some (takeWhile (\<lambda>x. x \<noteq> c) r))"
proof (cases "dropWhile (\<lambda>x. x \<noteq> c) s")
  case Nil
  have sp: "split c s = [takeWhile (\<lambda>x. x \<noteq> c) s]"
    by (subst split_pieces) (simp only: Nil list.case)
  show ?thesis unfolding sp Nil list.case by (simp add: index_def)
next
  case (Cons x r)
  have sp: "split c s = takeWhile (\<lambda>x. x \<noteq> c) s # split c r"
    by (subst split_pieces) (simp only: Cons list.case)
  have "split c r \<noteq> []"
    by (subst split_pieces) simp
  then have "index (split c s) (Suc 0) = Some (hd (split c r))"
    unfolding sp by (cases "split c r") (simp_all add: index_def)
  moreover have "hd (split c r) = takeWhile (\<lambda>x. x \<noteq> c) r"
    by (subst split_pieces) simp
  ultimately show ?thesis unfolding Cons list.case by simp
qed

lemma base64Data_measured:
  "(case index (split CHR '','' img) (Suc 0) of
      Some piece \<Rightarrow> if piece \<noteq> [] then piece else img
    | None \<Rightarrow> img) = measured_text img"
proof (cases "dropWhile (\<lambda>c. c \<noteq> CHR '','') img")
  case Nil
  show ?thesis
    unfolding index_split_second measured_text_def base64_payload_def Nil by simp
next
  case (Cons x r)
  show ?thesis
    unfolding index_split_second measured_text_def base64_payload_def Cons
    by (simp add: Let_def)
qed

lemma measured_text_payload:
  assumes "base64_payload img \<noteq> []" "CHR '','' \<notin> set (base64_payload img)"
  shows "measured_text img = base64_payload img"
proof -
  have tw: "takeWhile (\<lambda>c. c \<noteq> CHR '','') (base64_payload img) = base64_payload img"
    using assms(2) by (auto simp: takeWhile_eq_all_conv)
  show ?thesis unfolding measured_text_def Let_def tw using assms(1) by simp
qed

text \<open>
  C7, as the code has it. For an entry with a non-empty image text, the size is the
  number of bytes the measured text decodes to, three for every four characters rounded
  up, plus the size of the JSON text of the entry without its image. The measured text
  is the base64 payload when that is non-empty and has no comma; otherwise it is the
  part of the payload before its first comma, or the whole image text when that part is
  empty. For an entry with no image (or an empty one) the size is the size of the JSON
  text of the whole entry. The sizes of the JSON texts are the host's.
\<close>

theorem getBookmarkDataSize_footprint:
  "(customImage b = Some img \<and> img \<noteq> []
      \<and> json_size h (b\<lparr>customImage := None\<rparr>) = Some j
     \<longrightarrow> getBookmarkDataSize h b
           = enat (nat \<lceil>3 * real (length (measured_text img)) / 4\<rceil> + j))
   \<and> (base64_payload img \<noteq> [] \<and> CHR '','' \<notin> set (base64_payload img)
     \<longrightarrow> measured_text img = base64_payload img)
   \<and> ((customImage b = None \<or> customImage b = Some []) \<and> json_size h b = Some k
     \<longrightarrow> getBookmarkDataSize h b = enat k)"
proof (intro conjI impI)
  assume a: "customImage b = Some img \<and> img \<noteq> []
      \<and> json_size h (b\<lparr>customImage := None\<rparr>) = Some j"
  then show "getBookmarkDataSize h b
           = enat (nat \<lceil>3 * real (length (measured_text img)) / 4\<rceil> + j)"
    by (simp add: getBookmarkDataSize_def Let_def base64Data_measured Math_ceil_div_ceiling)
next
  assume "base64_payload img \<noteq> [] \<and> CHR '','' \<notin> set (base64_payload img)"
  then show "measured_text img = base64_payload img"
    by (simp add: measured_text_payload)
next
  assume "(customImage b = None \<or> customImage b = Some []) \<and> json_size h b = Some k"
  then show "getBookmarkDataSize h b = enat k"
    by (auto simp: getBookmarkDataSize_def)
qed

theorem getBookmarkDataSize_footprint_witness:
  "customImage (with_image (entry ''a'' BOOKMARK None False) ''data:image/png;base64,AAAAA'')
      = Some ''data:image/png;base64,AAAAA''
   \<and> ''data:image/png;base64,AAAAA'' \<noteq> []
   \<and> base64_payload ''data:image/png;base64,AAAAA'' = ''AAAAA''
   \<and> measured_text ''data:image/png;base64,AAAAA'' = ''AAAAA''
   \<and> json_size (example_host OnError)
        ((with_image (entry ''a'' BOOKMARK None False) ''data:image/png;base64,AAAAA'')
           \<lparr>customImage := None\<rparr>) = Some 74
   \<and> getBookmarkDataSize (example_host OnError)
        (with_image (entry ''a'' BOOKMARK None False) ''data:image/png;base64,AAAAA'')
      = enat 78
   \<and> customImage (entry ''a'' BOOKMARK None False) = None
   \<and> json_size (example_host OnError) (entry ''a'' BOOKMARK None False) = Some 74
   \<and> getBookmarkDataSize (example_host OnError) (entry ''a'' BOOKMARK None False) = enat 74"
proof -
  let ?h = "example_host OnError"
  let ?img = "''data:image/png;base64,AAAAA''"
  let ?b = "with_image (entry ''a'' BOOKMARK None False) ?img"
  let ?e = "entry ''a'' BOOKMARK None False"
  have img: "customImage ?b = Some ?img" "?img \<noteq> []"
    by (simp_all add: with_image_def)
  have pay: "base64_payload ?img = ''AAAAA''"
    by (simp add: base64_payload_def)
  have ok: "base64_payload ?img \<noteq> [] \<and> CHR '','' \<notin> set (base64_payload ?img)"
    unfolding pay by simp
  have j: "json_size ?h (?b\<lparr>customImage := None\<rparr>) = Some 74"
    by (simp add: example_defs)
  have none: "customImage ?e = None"
    by (simp add: entry_def)
  have k: "json_size ?h ?e = Some 74"
    by (simp add: example_defs)
  have c: "nat \<lceil>3 * real (length ''AAAAA'') / 4\<rceil> = 4"
    by (simp add: Math_ceil_div_ceiling [symmetric] Math_ceil_div_def)
  note fp = getBookmarkDataSize_footprint [of ?b ?img ?h 74 74]
  from fp ok have m: "measured_text ?img = ''AAAAA''"
    unfolding pay by blast
  from fp img j
  have "getBookmarkDataSize ?h ?b = enat (nat \<lceil>3 * real (length (measured_text ?img)) / 4\<rceil> + 74)"
    by blast
  then have one: "getBookmarkDataSize ?h ?b = enat 78"
    unfolding m c by simp
  from getBookmarkDataSize_footprint [of ?e ?img ?h 74 74] none k
  have two: "getBookmarkDataSize ?h ?e = enat 74"
    by blast
  show ?thesis using img pay m j one none k two by blast
qed

text \<open>
  C7, as stated, fails. For the image text \<^verbatim>\<open>data:image/png;base64,\<close> the payload is
  empty, and the size is taken from the 22 characters of the whole text: 17 + 74 and
  not 0 + 74. For \<^verbatim>\<open>a,bb,ccc\<close> the payload is \<^verbatim>\<open>bb,ccc\<close>, and the size is taken from
  \<^verbatim>\<open>bb\<close> alone: 2 + 74 and not 5 + 74.
\<close>

theorem getBookmarkDataSize_payload_counterexample:
  "customImage (with_image (entry ''a'' BOOKMARK None False) ''data:image/png;base64,'')
      = Some ''data:image/png;base64,''
   \<and> base64_payload ''data:image/png;base64,'' = []
   \<and> json_size (example_host OnError)
        ((with_image (entry ''a'' BOOKMARK None False) ''data:image/png;base64,'')
           \<lparr>customImage := None\<rparr>) = Some 74
   \<and> getBookmarkDataSize (example_host OnError)
        (with_image (entry ''a'' BOOKMARK None False) ''data:image/png;base64,'') = enat 91
   \<and> enat 91 \<noteq> enat (Math_ceil_div (length (base64_payload ''data:image/png;base64,'') * 3) 4
                      + 74)
   \<and> customImage (with_image (entry ''a'' BOOKMARK None False) ''a,bb,ccc'') = Some ''a,bb,ccc''
   \<and> base64_payload ''a,bb,ccc'' = ''bb,ccc''
   \<and> json_size (example_host OnError)
        ((with_image (entry ''a'' BOOKMARK None False) ''a,bb,ccc'')
           \<lparr>customImage := None\<rparr>) = Some 74
   \<and> getBookmarkDataSize (example_host OnError)
        (with_image (entry ''a'' BOOKMARK None False) ''a,bb,ccc'') = enat 76
   \<and> enat 76 \<noteq> enat (Math_ceil_div (length (base64_payload ''a,bb,ccc'') * 3) 4 + 74)"
proof -
  let ?h = "example_host OnError"
  let ?e = "entry ''a'' BOOKMARK None False"
  have p1: "base64_payload ''data:image/png;base64,'' = []"
    and p2: "base64_payload ''a,bb,ccc'' = ''bb,ccc''"
    by (simp_all add: base64_payload_def)
  have i1: "customImage (with_image ?e ''data:image/png;base64,'') = Some ''data:image/png;base64,''"
    and i2: "customImage (with_image ?e ''a,bb,ccc'') = Some ''a,bb,ccc''"
    by (simp_all add: with_image_def)
  have j1: "json_size ?h ((with_image ?e ''data:image/png;base64,'')\<lparr>customImage := None\<rparr>)
              = Some 74"
    and j2: "json_size ?h ((with_image ?e ''a,bb,ccc'')\<lparr>customImage := None\<rparr>) = Some 74"
    by (simp_all add: example_defs)
  have s1: "getBookmarkDataSize ?h (with_image ?e ''data:image/png;base64,'') = enat 91"
    by (simp add: getBookmarkDataSize_def example_defs)
  have s2: "getBookmarkDataSize ?h (with_image ?e ''a,bb,ccc'') = enat 76"
    by (simp add: getBookmarkDataSize_def example_defs)
  have n1: "enat 91 \<noteq> enat (Math_ceil_div (length (base64_payload ''data:image/png;base64,'') * 3) 4
                      + 74)"
    unfolding p1 by (simp add: Math_ceil_div_def)
  have n2: "enat 76 \<noteq> enat (Math_ceil_div (length (base64_payload ''a,bb,ccc'') * 3) 4 + 74)"
    unfolding p2 by (simp add: Math_ceil_div_def)
  from p1 p2 i1 i2 j1 j2 s1 s2 n1 n2 show ?thesis by (intro conjI)
qed

subsection \<open>Refusing an entry that is too large\<close>

text \<open>
  C6. When the size of the entry exceeds its ceiling, \<open>addBookmark\<close> writes nothing:
  the stored bookmarks and the log of writes are what they were, and so is the
  sequence in memory, so that the saving effect does not run either.
\<close>

theorem addBookmark_too_large_persists_nothing:
  assumes "enat (sizeLimit (isGif b)) < getBookmarkDataSize h b"
  shows "stored_bookmarks (addBookmark h s b) = stored_bookmarks s
     \<and> writes (addBookmark h s b) = writes s
     \<and> bookmarks (addBookmark h s b) = bookmarks s"
  using assms by (simp add: addBookmark_def store_ops)

theorem addBookmark_too_large_persists_nothing_witness:
  "enat (sizeLimit (isGif (png_entry ''p'' 2400000)))
     < getBookmarkDataSize (example_host OnError) (png_entry ''p'' 2400000)
   \<and> stored_bookmarks
        (addBookmark (example_host OnError) (fresh_store []) (png_entry ''p'' 2400000)) = None
   \<and> writes
        (addBookmark (example_host OnError) (fresh_store []) (png_entry ''p'' 2400000)) = []
   \<and> bookmarks
        (addBookmark (example_host OnError) (fresh_store []) (png_entry ''p'' 2400000)) = []"
proof -
  have big: "enat (sizeLimit (isGif (png_entry ''p'' 2400000)))
     < getBookmarkDataSize (example_host OnError) (png_entry ''p'' 2400000)"
    by (simp add: png_entry_size png_entry_not_isGif sizeLimit_def MAX_BOOKMARK_SIZE_def)
  from addBookmark_too_large_persists_nothing [OF big, of "fresh_store []"] big
  show ?thesis by (simp add: fresh_store_def)
qed

lemma prepare_shown:
  "prepareBookmarkForStorage h b = Resolved (nb, shown) \<Longrightarrow>
     shown = [] \<or> shown = [ImageProcessingError]"
  by (auto simp: prepareBookmarkForStorage_def Let_def
      split: option.splits if_splits promise.splits)

lemma prepare_not_rejected: "prepareBookmarkForStorage h b \<noteq> Rejected"
  by (auto simp: prepareBookmarkForStorage_def Let_def
      split: option.splits if_splits promise.splits)

lemma prepare_isLocal:
  "prepareBookmarkForStorage h b = Resolved (nb, shown) \<Longrightarrow> isLocal nb"
  by (auto simp: prepareBookmarkForStorage_def Let_def
      split: option.splits if_splits promise.splits)

lemma addBookmark_toasts_cases:
  assumes "\<not> enat (sizeLimit (isGif b)) < getBookmarkDataSize h b"
  shows "\<exists>ts. toasts (addBookmark h s b) = toasts s @ ts \<and> ImageTooLarge \<notin> set ts"
proof (cases "prepareBookmarkForStorage h b")
  case (Resolved r)
  obtain nb shown where r: "r = (nb, shown)" by (cases r)
  have "shown = [] \<or> shown = [ImageProcessingError]"
    using Resolved r by (auto dest: prepare_shown)
  then show ?thesis using assms Resolved r
    by (auto simp: addBookmark_def store_ops Let_def split: option.splits)
next
  case Rejected
  then show ?thesis using prepare_not_rejected by blast
next
  case Pending
  then show ?thesis using assms by (simp add: addBookmark_def)
qed

text \<open>
  C5, as the code has it. \<open>addBookmark\<close> reports that the entry is too large exactly
  when its size exceeds the ceiling, and then appends nothing. The ceiling is 1.5 MiB,
  and one and a half times that for an image whose text starts with
  \<^verbatim>\<open>data:image/gif\<close>. An entry within its ceiling is not refused by this check; the
  later check of the total can still refuse it with another message.
\<close>

theorem addBookmark_size_check:
  "(toasts (addBookmark h s b) = toasts s @ [ImageTooLarge])
      = (enat (sizeLimit (isGif b)) < getBookmarkDataSize h b)
   \<and> (enat (sizeLimit (isGif b)) < getBookmarkDataSize h b \<longrightarrow>
        bookmarks (addBookmark h s b) = bookmarks s)
   \<and> sizeLimit False = 1572864 \<and> 2 * sizeLimit True = 3 * sizeLimit False
   \<and> isGif b = (\<exists>img. customImage b = Some img \<and> prefix ''data:image/gif'' img)"
proof -
  have a: "toasts (addBookmark h s b) = toasts s @ [ImageTooLarge]"
    if "enat (sizeLimit (isGif b)) < getBookmarkDataSize h b"
    using that by (simp add: addBookmark_def store_ops)
  have b: "toasts (addBookmark h s b) \<noteq> toasts s @ [ImageTooLarge]"
    if "\<not> enat (sizeLimit (isGif b)) < getBookmarkDataSize h b"
    using addBookmark_toasts_cases [OF that, of s] by auto
  have c: "bookmarks (addBookmark h s b) = bookmarks s"
    if "enat (sizeLimit (isGif b)) < getBookmarkDataSize h b"
    using that by (simp add: addBookmark_def store_ops)
  have d: "sizeLimit False = 1572864" "2 * sizeLimit True = 3 * sizeLimit False"
    by (simp_all add: sizeLimit_def MAX_BOOKMARK_SIZE_def)
  have e: "isGif b = (\<exists>img. customImage b = Some img \<and> prefix ''data:image/gif'' img)"
    by (simp add: isGif_def split: option.splits)
  from a b c d e show ?thesis by blast
qed

text \<open>
  At a size of 1800074 bytes, between the two ceilings, the PNG entry is refused and the
  GIF entry is stored (the host re-encodes its image).
\<close>

theorem addBookmark_size_check_witness:
  "getBookmarkDataSize (example_host (OnLoad 256 256)) (gif_entry ''p'' 2400000)
     = enat 1800074
   \<and> getBookmarkDataSize (example_host (OnLoad 256 256)) (png_entry ''p'' 2400000)
     = enat 1800074
   \<and> sizeLimit False < 1800074 \<and> 1800074 < sizeLimit True
   \<and> toasts (addBookmark (example_host (OnLoad 256 256)) (fresh_store [])
               (png_entry ''p'' 2400000)) = [ImageTooLarge]
   \<and> bookmarks (addBookmark (example_host (OnLoad 256 256)) (fresh_store [])
               (png_entry ''p'' 2400000)) = []
   \<and> toasts (addBookmark (example_host (OnLoad 256 256)) (fresh_store [])
               (gif_entry ''p'' 2400000)) \<noteq> [ImageTooLarge]
   \<and> bookmarks (addBookmark (example_host (OnLoad 256 256)) (fresh_store [])
               (gif_entry ''p'' 2400000))
     = [with_image (entry ''p'' BOOKMARK None False) ''data:image/png;base64,AAAA'']"
proof -
  let ?h = "example_host (OnLoad 256 256)"
  let ?s = "fresh_store []"
  have lim: "sizeLimit False < 1800074" "1800074 < sizeLimit True"
    by (simp_all add: sizeLimit_def MAX_BOOKMARK_SIZE_def)
  have png: "enat (sizeLimit (isGif (png_entry ''p'' 2400000)))
               < getBookmarkDataSize ?h (png_entry ''p'' 2400000)"
    using lim by (simp add: png_entry_size png_entry_not_isGif)
  have gif: "\<not> enat (sizeLimit (isGif (gif_entry ''p'' 2400000)))
               < getBookmarkDataSize ?h (gif_entry ''p'' 2400000)"
    using lim by (simp add: gif_entry_big_size gif_entry_isGif)
  have s: "toasts ?s = []" "bookmarks ?s = []"
    by (simp_all add: fresh_store_def)
  from addBookmark_size_check [of ?h ?s "png_entry ''p'' 2400000"] png
  have p1: "toasts (addBookmark ?h ?s (png_entry ''p'' 2400000)) = [ImageTooLarge]"
    and p2: "bookmarks (addBookmark ?h ?s (png_entry ''p'' 2400000)) = []"
    unfolding s by simp_all
  from addBookmark_size_check [of ?h ?s "gif_entry ''p'' 2400000"] gif
  have g1: "toasts (addBookmark ?h ?s (gif_entry ''p'' 2400000)) \<noteq> [ImageTooLarge]"
    unfolding s by simp
  have "json_length ?h (filter isLocal
          ([] @ [with_image (entry ''p'' BOOKMARK None False) ''data:image/png;base64,AAAA'']))
          = Some 119"
    by (simp add: example_defs)
  then have g2: "bookmarks (addBookmark ?h ?s (gif_entry ''p'' 2400000))
     = [with_image (entry ''p'' BOOKMARK None False) ''data:image/png;base64,AAAA'']"
    using gif
    by (simp add: addBookmark_def gif_entry_big_prepare Let_def s
        setToStorage_bookmarks_def)
  show ?thesis
    using lim p1 p2 g1 g2 by (simp add: png_entry_size gif_entry_big_size)
qed

text \<open>
  C5, as stated, fails: the entry is within its ceiling, and \<open>addBookmark\<close> shows an
  error and appends nothing, because the total would exceed 5 MiB.
\<close>

theorem addBookmark_size_check_only_counterexample:
  "\<not> enat (sizeLimit (isGif (gif_entry ''c5'' 1200000)))
       < getBookmarkDataSize (example_host OnError) (gif_entry ''c5'' 1200000)
   \<and> toasts (addBookmark (example_host OnError)
        (fresh_store
           [gif_entry ''c1'' 1200000, gif_entry ''c2'' 1200000, gif_entry ''c3'' 1200000,
            gif_entry ''c4'' 1200000])
        (gif_entry ''c5'' 1200000)) = [TotalTooLarge]
   \<and> bookmarks (addBookmark (example_host OnError)
        (fresh_store
           [gif_entry ''c1'' 1200000, gif_entry ''c2'' 1200000, gif_entry ''c3'' 1200000,
            gif_entry ''c4'' 1200000])
        (gif_entry ''c5'' 1200000))
       = [gif_entry ''c1'' 1200000, gif_entry ''c2'' 1200000, gif_entry ''c3'' 1200000,
            gif_entry ''c4'' 1200000]"
proof -
  let ?h = "example_host OnError"
  let ?bs = "[gif_entry ''c1'' 1200000, gif_entry ''c2'' 1200000, gif_entry ''c3'' 1200000,
            gif_entry ''c4'' 1200000]"
  let ?b = "gif_entry ''c5'' 1200000"
  have ok: "\<not> enat (sizeLimit (isGif ?b)) < getBookmarkDataSize ?h ?b"
    by (simp add: gif_entry_c_size gif_entry_isGif sizeLimit_def MAX_BOOKMARK_SIZE_def)
  have prep: "prepareBookmarkForStorage ?h ?b = Resolved (?b, [])"
    by (simp add: prepareBookmarkForStorage_def compressImageData_def MAX_BOOKMARK_SIZE_def
      example_defs)
  have agg: "json_length ?h (filter isLocal (bookmarks (fresh_store ?bs) @ [?b]))
               = Some 6000576"
    by (simp add: fresh_store_def example_defs)
  have run: "addBookmark ?h (fresh_store ?bs) ?b = toast_error TotalTooLarge (fresh_store ?bs)"
    using ok agg by (simp add: addBookmark_def prep Let_def)
  show ?thesis unfolding run using ok
    by (simp add: toast_error_def fresh_store_def)
qed

subsection \<open>Refusing an entry that makes the total too large\<close>

text \<open>
  C1, as the code has it. When the entry passes its own check and the JSON text of
  the local entries, the new one included, is longer than 5 MiB, \<open>addBookmark\<close> shows
  the error and returns: nothing is written, and the sequence in memory is unchanged,
  because the entry was appended to a local copy only, which \<^verbatim>\<open>setBookmarks\<close> never
  received.
\<close>

theorem addBookmark_aggregate_too_large:
  assumes "\<not> enat (sizeLimit (isGif b)) < getBookmarkDataSize h b"
    and "prepareBookmarkForStorage h b = Resolved (nb, shown)"
    and "json_length h (filter isLocal (bookmarks s @ [nb])) = Some n"
    and "5 * 1024 * 1024 < n"
  shows "bookmarks (addBookmark h s b) = bookmarks s
     \<and> stored_bookmarks (addBookmark h s b) = stored_bookmarks s
     \<and> writes (addBookmark h s b) = writes s
     \<and> toasts (addBookmark h s b) = toasts s @ shown @ [TotalTooLarge]"
  using assms by (simp add: addBookmark_def store_ops Let_def)

theorem addBookmark_aggregate_too_large_witness:
  "\<not> enat (sizeLimit (isGif (gif_entry ''g4'' 1400000)))
       < getBookmarkDataSize (example_host OnError) (gif_entry ''g4'' 1400000)
   \<and> prepareBookmarkForStorage (example_host OnError) (gif_entry ''g4'' 1400000)
       = Resolved (gif_entry ''g4'' 1400000, [])
   \<and> json_length (example_host OnError)
        (filter isLocal
          (bookmarks (fresh_store
             [gif_entry ''g1'' 1400000, gif_entry ''g2'' 1400000, gif_entry ''g3'' 1400000])
           @ [gif_entry ''g4'' 1400000])) = Some 5600461
   \<and> (5 * 1024 * 1024 :: nat) < 5600461
   \<and> bookmarks (addBookmark (example_host OnError)
        (fresh_store
           [gif_entry ''g1'' 1400000, gif_entry ''g2'' 1400000, gif_entry ''g3'' 1400000])
        (gif_entry ''g4'' 1400000))
       = [gif_entry ''g1'' 1400000, gif_entry ''g2'' 1400000, gif_entry ''g3'' 1400000]
   \<and> writes (addBookmark (example_host OnError)
        (fresh_store
           [gif_entry ''g1'' 1400000, gif_entry ''g2'' 1400000, gif_entry ''g3'' 1400000])
        (gif_entry ''g4'' 1400000)) = []"
proof -
  let ?h = "example_host OnError"
  let ?s = "fresh_store
           [gif_entry ''g1'' 1400000, gif_entry ''g2'' 1400000, gif_entry ''g3'' 1400000]"
  let ?b = "gif_entry ''g4'' 1400000"
  have ok: "\<not> enat (sizeLimit (isGif ?b)) < getBookmarkDataSize ?h ?b"
    by (simp add: gif_entry_size gif_entry_isGif sizeLimit_def MAX_BOOKMARK_SIZE_def)
  have prep: "prepareBookmarkForStorage ?h ?b = Resolved (?b, [])"
    by (rule gif_entry_prepare)
  have agg: "json_length ?h (filter isLocal (bookmarks ?s @ [?b])) = Some 5600461"
    by (rule gif_entries_length)
  have over: "(5 * 1024 * 1024 :: nat) < 5600461" by simp
  from addBookmark_aggregate_too_large [OF ok prep agg over]
  have "bookmarks (addBookmark ?h ?s ?b) = bookmarks ?s"
    and "writes (addBookmark ?h ?s ?b) = writes ?s"
    by simp_all
  then show ?thesis using ok prep agg
    by (simp add: fresh_store_def)
qed

text \<open>
  C1, as stated, fails: three entries with GIF images of 1400000 characters are in
  memory, a fourth is added and refused for the total, and the sequence in memory does
  not contain it.
\<close>

theorem addBookmark_aggregate_rollback_counterexample:
  "toasts (addBookmark (example_host OnError)
        (fresh_store
           [gif_entry ''g1'' 1400000, gif_entry ''g2'' 1400000, gif_entry ''g3'' 1400000])
        (gif_entry ''g4'' 1400000)) = [TotalTooLarge]
   \<and> bookmarks (addBookmark (example_host OnError)
        (fresh_store
           [gif_entry ''g1'' 1400000, gif_entry ''g2'' 1400000, gif_entry ''g3'' 1400000])
        (gif_entry ''g4'' 1400000))
       = [gif_entry ''g1'' 1400000, gif_entry ''g2'' 1400000, gif_entry ''g3'' 1400000]
   \<and> gif_entry ''g4'' 1400000
       \<notin> set (bookmarks (addBookmark (example_host OnError)
        (fresh_store
           [gif_entry ''g1'' 1400000, gif_entry ''g2'' 1400000, gif_entry ''g3'' 1400000])
        (gif_entry ''g4'' 1400000)))"
proof -
  let ?h = "example_host OnError"
  let ?bs = "[gif_entry ''g1'' 1400000, gif_entry ''g2'' 1400000, gif_entry ''g3'' 1400000]"
  let ?b = "gif_entry ''g4'' 1400000"
  have ok: "\<not> enat (sizeLimit (isGif ?b)) < getBookmarkDataSize ?h ?b"
    by (simp add: gif_entry_size gif_entry_isGif sizeLimit_def MAX_BOOKMARK_SIZE_def)
  have agg: "json_length ?h (filter isLocal (bookmarks (fresh_store ?bs) @ [?b]))
               = Some 5600461"
    by (rule gif_entries_length)
  have run: "addBookmark ?h (fresh_store ?bs) ?b = toast_error TotalTooLarge (fresh_store ?bs)"
    using ok agg by (simp add: addBookmark_def gif_entry_prepare Let_def)
  have new: "?b \<notin> set ?bs"
    by (simp add: gif_entry_def with_image_def entry_def)
  show ?thesis unfolding run using new
    by (simp add: toast_error_def fresh_store_def)
qed

subsection \<open>Failures of the image compression\<close>




subsection \<open>Only local entries are written\<close>

lemma local_only_filter: "local_only (WriteBookmarks (filter isLocal bs))"
  by (simp add: local_only_def list_all_iff)

lemma saveBookmarks_writes:
  "list_all local_only (writes s) \<Longrightarrow> list_all local_only (writes (saveBookmarks s))"
  by (simp add: saveBookmarks_def store_ops Let_def local_only_filter)

lemma loadBookmarks_writes: "writes (loadBookmarks s) = writes s"
  by (simp add: loadBookmarks_def split: option.splits)

lemma addBookmark_writes:
  "list_all local_only (writes s) \<Longrightarrow> list_all local_only (writes (addBookmark h s b))"
  by (auto simp: addBookmark_def store_ops Let_def local_only_def list_all_iff
      split: promise.splits option.splits prod.splits)

lemma deleteBookmark_writes:
  "list_all local_only (writes s) \<Longrightarrow> list_all local_only (writes (deleteBookmark s i))"
  by (auto simp: deleteBookmark_def store_ops Let_def local_only_def list_all_iff
      split: option.splits)

lemma reachable_local_only: "reachable h s \<Longrightarrow> list_all local_only (writes s)"
proof (induction rule: reachable.induct)
  case (start s)
  then show ?case by simp
next
  case (load s)
  then show ?case by (simp add: loadBookmarks_writes)
next
  case (save s)
  then show ?case by (simp add: saveBookmarks_writes)
next
  case (set_bookmarks s bs)
  then show ?case by simp
next
  case (add s b)
  then show ?case by (simp add: addBookmark_writes)
next
  case (delete s i)
  then show ?case by (simp add: deleteBookmark_writes)
qed

lemma addBookmark_appends_local:
  "bookmarks (addBookmark h s b) = bookmarks s
     \<or> (\<exists>nb. isLocal nb \<and> bookmarks (addBookmark h s b) = bookmarks s @ [nb])"
proof (cases "prepareBookmarkForStorage h b")
  case (Resolved r)
  obtain nb shown where r: "r = (nb, shown)" by (cases r)
  have "isLocal nb" using Resolved r by (auto dest: prepare_isLocal)
  then show ?thesis using Resolved r
    by (auto simp: addBookmark_def store_ops Let_def split: option.splits)
qed (auto simp: addBookmark_def store_ops Let_def)

text \<open>
  C9. In every state the provider can reach, each write to the key \<^verbatim>\<open>bookmarks\<close>, by
  \<open>addBookmark\<close>, by \<open>deleteBookmark\<close> or by the saving effect, holds local entries only;
  and \<open>addBookmark\<close> leaves the sequence as it is or appends one entry, which is local.
\<close>

theorem writes_local_only:
  assumes "reachable h s"
  shows "(\<forall>bs. WriteBookmarks bs \<in> set (writes s) \<longrightarrow> (\<forall>b \<in> set bs. isLocal b))
     \<and> (\<forall>b. bookmarks (addBookmark h s b) = bookmarks s
            \<or> (\<exists>nb. isLocal nb \<and> bookmarks (addBookmark h s b) = bookmarks s @ [nb]))"
proof
  have "list_all local_only (writes s)" using assms by (rule reachable_local_only)
  then show "\<forall>bs. WriteBookmarks bs \<in> set (writes s) \<longrightarrow> (\<forall>b \<in> set bs. isLocal b)"
    by (force simp: list_all_iff local_only_def)
  show "\<forall>b. bookmarks (addBookmark h s b) = bookmarks s
            \<or> (\<exists>nb. isLocal nb \<and> bookmarks (addBookmark h s b) = bookmarks s @ [nb])"
    using addBookmark_appends_local by blast
qed

theorem writes_local_only_witness:
  "reachable (example_host OnError)
     (addBookmark (example_host OnError) (fresh_store [])
        ((entry ''a'' BOOKMARK None False)\<lparr>isLocal := False\<rparr>))
   \<and> writes (addBookmark (example_host OnError) (fresh_store [])
        ((entry ''a'' BOOKMARK None False)\<lparr>isLocal := False\<rparr>))
      = [WriteBookmarks [entry ''a'' BOOKMARK None False]]
   \<and> isLocal (entry ''a'' BOOKMARK None False)"
proof -
  let ?h = "example_host OnError"
  let ?b = "(entry ''a'' BOOKMARK None False)\<lparr>isLocal := False\<rparr>"
  let ?s = "addBookmark ?h (fresh_store []) ?b"
  have "reachable ?h (fresh_store [])"
    by (rule reachable.start) (simp add: fresh_store_def)
  then have r: "reachable ?h ?s"
    by (rule reachable.add)
  have w: "writes ?s = [WriteBookmarks [entry ''a'' BOOKMARK None False]]"
    by (simp add: addBookmark_def getBookmarkDataSize_def prepareBookmarkForStorage_def
        isGif_def sizeLimit_def MAX_BOOKMARK_SIZE_def Let_def setToStorage_bookmarks_def
        fresh_store_def example_defs)
  from writes_local_only [OF r] w
  have "isLocal (entry ''a'' BOOKMARK None False)"
    by simp
  with r w show ?thesis by blast
qed

end
